theory Spec2Isabelle
  imports Main "HOL-Library.Word"
begin

section \<open>Errors\<close>

text \<open>
  The header declares one error code, \<open>ErrorCodes::NOT_IMPLEMENTED\<close>; it is the code the
  specification calls \<^emph>\<open>NotSupported\<close>. The other four constructors are modelled from the
  spec: they are the remaining error kinds of its section 7, raised by the operations whose
  bodies the header does not contain.
\<close>

datatype ErrorCodes = NOT_IMPLEMENTED | NotFound | CorruptMetadata | IOFailure | BackendFailure

text \<open>\<open>Exception(code, message)\<close>: an error code and the formatted message.\<close>

datatype exception = Exception ErrorCodes string

fun code :: "exception \<Rightarrow> ErrorCodes" where
  "code (Exception c m) = c"

section \<open>The remote disk facade: members and inline methods\<close>

text \<open>
  The data members of \<open>IDiskRemote\<close>. The two 64-bit counters are \<open>UInt64\<close> in the source
  and wrap around. The member \<open>name\<close> is called \<open>disk_name\<close> and the member
  \<open>remote_fs_root_path\<close> is called \<open>disk_remote_fs_root_path\<close> here, since the executor
  and the metadata record have members of the same names.
\<close>

record IDiskRemote =
  disk_name :: string
  disk_remote_fs_root_path :: string
  metadata_path :: string
  reserved_bytes :: "64 word"
  reservation_count :: "64 word"

definition getName :: "IDiskRemote \<Rightarrow> string" where
  "getName d = disk_name d"

text \<open>
  \<open>removeFromRemoteFS\<close> and \<open>createFSPathKeeper\<close> of the base class: the body is a single
  \<open>throw\<close>, whatever the argument. The message is the format string with the disk's name
  substituted for \<open>{}\<close>.
\<close>

definition removeFromRemoteFS :: "IDiskRemote \<Rightarrow> 'keeper \<Rightarrow> exception + unit" where
  "removeFromRemoteFS d fs_paths_keeper =
     Inl (Exception NOT_IMPLEMENTED
            (''Disk '' @ getName d @ '' does not support removing remote files''))"

definition createFSPathKeeper :: "IDiskRemote \<Rightarrow> exception + 'keeper" where
  "createFSPathKeeper d =
     Inl (Exception NOT_IMPLEMENTED
            (''Disk '' @ getName d @ '' does not support FS paths keeper''))"

text \<open>
  \<open>removeFile\<close>, \<open>removeRecursive\<close> and \<open>moveDirectory\<close> are defined inline in the header
  as calls of the virtual methods \<open>removeSharedFile\<close>, \<open>removeSharedRecursive\<close> and
  \<open>moveFile\<close>. The callee is whatever the object's class provides, so it is a parameter
  here; \<open>'s\<close> is the state the callee works on and \<open>'r\<close> what it produces (the new state
  or the exception it throws).
\<close>

definition removeFile :: "(string \<Rightarrow> bool \<Rightarrow> 's \<Rightarrow> 'r) \<Rightarrow> string \<Rightarrow> 's \<Rightarrow> 'r" where
  "removeFile removeSharedFile_impl path s = removeSharedFile_impl path False s"

definition removeRecursive :: "(string \<Rightarrow> bool \<Rightarrow> 's \<Rightarrow> 'r) \<Rightarrow> string \<Rightarrow> 's \<Rightarrow> 'r" where
  "removeRecursive removeSharedRecursive_impl path s = removeSharedRecursive_impl path False s"

definition moveDirectory :: "(string \<Rightarrow> string \<Rightarrow> 's \<Rightarrow> 'r) \<Rightarrow> string \<Rightarrow> string \<Rightarrow> 's \<Rightarrow> 'r" where
  "moveDirectory moveFile_impl from_path to_path s = moveFile_impl from_path to_path s"

section \<open>The directory iterator\<close>

subsection \<open>\<open>std::filesystem::path\<close> on a POSIX system\<close>

text \<open>
  The iterator is written with the standard library's \<open>fs::path\<close>. A path is its native
  string; the separator is \<open>/\<close> and there are no root names. \<open>filename\<close> is the part after
  the last separator (empty when the path ends with one), and \<open>p / q\<close> (\<open>path_append\<close>)
  replaces \<open>p\<close> when \<open>q\<close> is absolute, and otherwise appends \<open>q\<close>, after a separator when
  \<open>p\<close> has a filename.
\<close>

definition separator :: char where
  "separator = CHR ''/''"

definition filename :: "string \<Rightarrow> string" where
  "filename p = rev (takeWhile (\<lambda>c. c \<noteq> separator) (rev p))"

definition has_filename :: "string \<Rightarrow> bool" where
  "has_filename p = (filename p \<noteq> [])"

definition is_absolute :: "string \<Rightarrow> bool" where
  "is_absolute p = (case p of [] \<Rightarrow> False | c # cs \<Rightarrow> c = separator)"

definition path_append :: "string \<Rightarrow> string \<Rightarrow> string" where
  "path_append p q =
     (if is_absolute q then q
      else if has_filename p then p @ [separator] @ q
      else p @ q)"

definition has_trailing_separator :: "string \<Rightarrow> bool" where
  "has_trailing_separator p = (case rev p of [] \<Rightarrow> False | c # cs \<Rightarrow> c = separator)"

text \<open>
  The local directory as the iterator sees it: the names of its entries, in the order the
  system lists them, each with the answer \<open>fs::is_directory\<close> gives for it. A name the
  system lists is not empty and holds no separator.
\<close>

type_synonym listing = "(string \<times> bool) list"

definition entry_name_ok :: "string \<Rightarrow> bool" where
  "entry_name_ok n = (n \<noteq> [] \<and> separator \<notin> set n)"

record directory_entry =
  entry_path :: string
  entry_is_directory :: bool

text \<open>\<open>fs::directory_iterator(p)\<close>: the entries still to come, each with the path \<open>p / name\<close>.\<close>

definition directory_iterator :: "listing \<Rightarrow> string \<Rightarrow> directory_entry list" where
  "directory_iterator ls p =
     map (\<lambda>(n, d). \<lparr>entry_path = path_append p n, entry_is_directory = d\<rparr>) ls"

subsection \<open>\<open>RemoteDiskDirectoryIterator\<close>\<close>

record RemoteDiskDirectoryIterator =
  iter :: "directory_entry list"
  folder_path :: string

text \<open>The constructor; the listing stands for the local file system it reads.\<close>

definition RemoteDiskDirectoryIterator_init ::
    "listing \<Rightarrow> string \<Rightarrow> string \<Rightarrow> RemoteDiskDirectoryIterator" where
  "RemoteDiskDirectoryIterator_init ls full_path folder =
     \<lparr>iter = directory_iterator ls full_path, folder_path = folder\<rparr>"

definition isValid :: "RemoteDiskDirectoryIterator \<Rightarrow> bool" where
  "isValid it = (iter it \<noteq> [])"

text \<open>
  \<open>next\<close>, \<open>path\<close> and \<open>name\<close> increment or dereference \<open>iter\<close>, which is undefined at the
  end of the directory: there the model gives \<open>None\<close>.
\<close>

definition RemoteDiskDirectoryIterator_next ::
    "RemoteDiskDirectoryIterator \<Rightarrow> RemoteDiskDirectoryIterator option" where
  "RemoteDiskDirectoryIterator_next it =
     (case iter it of [] \<Rightarrow> None | e # es \<Rightarrow> Some (it\<lparr>iter := es\<rparr>))"

definition RemoteDiskDirectoryIterator_path :: "RemoteDiskDirectoryIterator \<Rightarrow> string option" where
  "RemoteDiskDirectoryIterator_path it =
     (case iter it of
        [] \<Rightarrow> None
      | e # es \<Rightarrow>
          if entry_is_directory e
          then Some (path_append (path_append (folder_path it) (filename (entry_path e))) [])
          else Some (path_append (folder_path it) (filename (entry_path e))))"

definition RemoteDiskDirectoryIterator_name :: "RemoteDiskDirectoryIterator \<Rightarrow> string option" where
  "RemoteDiskDirectoryIterator_name it =
     (case iter it of [] \<Rightarrow> None | e # es \<Rightarrow> Some (filename (entry_path e)))"

text \<open>The caller's loop, \<open>i\<close> times \<open>next\<close>.\<close>

fun advance :: "nat \<Rightarrow> RemoteDiskDirectoryIterator \<Rightarrow> RemoteDiskDirectoryIterator option" where
  "advance 0 it = Some it"
| "advance (Suc i) it =
     (case RemoteDiskDirectoryIterator_next it of None \<Rightarrow> None | Some it' \<Rightarrow> advance i it')"

section \<open>The asynchronous executor\<close>

text \<open>
  What can be thrown inside the worker: whatever the task throws, or the
  \<open>std::future_error\<close> of a promise that cannot take a result.
\<close>

datatype 'e thrown = TaskException 'e | future_error

text \<open>
  The shared state of the \<open>std::promise<void>\<close>, which the returned \<open>std::future<void>\<close>
  observes: no result yet, a value, or a stored exception. \<open>set_value\<close> and
  \<open>set_exception\<close> store a result once; on a state that has one they throw.
\<close>

datatype 'e promise = NotReady | Ready | Failed "'e thrown"

definition set_value :: "'e promise \<Rightarrow> 'e thrown + 'e promise" where
  "set_value p = (case p of NotReady \<Rightarrow> Inr Ready | _ \<Rightarrow> Inl future_error)"

definition set_exception :: "'e thrown \<Rightarrow> 'e promise \<Rightarrow> 'e thrown + 'e promise" where
  "set_exception e p = (case p of NotReady \<Rightarrow> Inr (Failed e) | _ \<Rightarrow> Inl future_error)"

text \<open>
  The state the worker's lambda runs on: the world the task acts on, the promise it
  captured, and the log. A statement maps a state to the new state and the exception that
  leaves it, if any. A task is a \<open>std::function<void()>\<close>: it changes the world and
  returns or throws.
\<close>

record ('w, 'e) job_state =
  world :: 'w
  promise :: "'e promise"
  log :: "(string \<times> 'e thrown) list"

type_synonym ('w, 'e) stmt = "('w, 'e) job_state \<Rightarrow> ('w, 'e) job_state \<times> 'e thrown option"

type_synonym ('w, 'e) task = "'w \<Rightarrow> 'w \<times> 'e thrown option"

definition seq :: "('w, 'e) stmt \<Rightarrow> ('w, 'e) stmt \<Rightarrow> ('w, 'e) stmt" where
  "seq a b s = (case a s of (s', None) \<Rightarrow> b s' | (s', Some e) \<Rightarrow> (s', Some e))"

text \<open>\<open>try { body } catch (...) { handler }\<close>, the handler seeing the current exception.\<close>

definition try_catch_all ::
    "('w, 'e) stmt \<Rightarrow> ('e thrown \<Rightarrow> ('w, 'e) stmt) \<Rightarrow> ('w, 'e) stmt" where
  "try_catch_all body handler s =
     (case body s of (s', None) \<Rightarrow> (s', None) | (s', Some e) \<Rightarrow> handler e s')"

definition skip :: "('w, 'e) stmt" where
  "skip s = (s, None)"

definition call_task :: "('w, 'e) task \<Rightarrow> ('w, 'e) stmt" where
  "call_task task s = (case task (world s) of (w', r) \<Rightarrow> (s\<lparr>world := w'\<rparr>, r))"

definition promise_set_value :: "('w, 'e) stmt" where
  "promise_set_value s =
     (case set_value (promise s) of
        Inl e \<Rightarrow> (s, Some e)
      | Inr p \<Rightarrow> (s\<lparr>promise := p\<rparr>, None))"

definition promise_set_exception :: "'e thrown \<Rightarrow> ('w, 'e) stmt" where
  "promise_set_exception e s =
     (case set_exception e (promise s) of
        Inl e' \<Rightarrow> (s, Some e')
      | Inr p \<Rightarrow> (s\<lparr>promise := p\<rparr>, None))"

text \<open>\<open>tryLogCurrentException(message)\<close>: writes the current exception to the log, throws nothing.\<close>

definition tryLogCurrentException :: "string \<Rightarrow> 'e thrown \<Rightarrow> ('w, 'e) stmt" where
  "tryLogCurrentException message e s = (s\<lparr>log := log s @ [(message, e)]\<rparr>, None)"

text \<open>The lambda \<open>execute\<close> hands to the pool.\<close>

definition worker :: "('w, 'e) task \<Rightarrow> ('w, 'e) stmt" where
  "worker task =
     try_catch_all
       (seq (call_task task) promise_set_value)
       (\<lambda>e. seq (tryLogCurrentException ''Failed to run async task'' e)
                (try_catch_all (promise_set_exception e) (\<lambda>e'. skip)))"

text \<open>
  \<open>execute\<close>: a new promise, the lambda scheduled on the pool, and the promise's future
  returned. The result here is the new promise's state, which the future observes, and the
  scheduled job; the pool runs the job on the state that holds this promise.
\<close>

definition execute :: "('w, 'e) task \<Rightarrow> 'e promise \<times> ('w, 'e) stmt" where
  "execute task = (NotReady, worker task)"


section \<open>The path batcher\<close>

text \<open>
  \<open>RemoteFSPathKeeper\<close> holds \<open>chunk_limit\<close> (a \<open>size_t\<close>; no arithmetic is done on it, so
  it is a natural number here), set by the constructor. The field \<open>chunks\<close> is modelled
  from the spec: the header leaves the batches to the backends' subclasses, and the
  specification (sections 3 and 4.3) gives the batcher an ordered sequence of identifiers
  in batches, the last batch being the current one. A new batcher has no batch.
\<close>

record RemoteFSPathKeeper =
  chunk_limit :: nat
  chunks :: "string list list"

definition RemoteFSPathKeeper_init :: "nat \<Rightarrow> RemoteFSPathKeeper" where
  "RemoteFSPathKeeper_init limit = \<lparr>chunk_limit = limit, chunks = []\<rparr>"

text \<open>
  Modelled from the spec: the body of \<open>addPath\<close>, pure virtual in the header and defined
  by the backends' subclasses only. \<open>addPath\<close> appends the identifier to the current batch;
  once that batch has reached \<open>chunk_limit\<close> entries (or there is no batch yet) it starts a
  new batch and appends there.
\<close>

definition addPath :: "string \<Rightarrow> RemoteFSPathKeeper \<Rightarrow> RemoteFSPathKeeper" where
  "addPath path k =
     (if chunks k = [] \<or> chunk_limit k \<le> length (last (chunks k))
      then k\<lparr>chunks := chunks k @ [[path]]\<rparr>
      else k\<lparr>chunks := butlast (chunks k) @ [last (chunks k) @ [path]]\<rparr>)"

text \<open>A sequence of \<open>addPath\<close> calls, in order.\<close>

fun addPaths :: "string list \<Rightarrow> RemoteFSPathKeeper \<Rightarrow> RemoteFSPathKeeper" where
  "addPaths [] k = k"
| "addPaths (p # ps) k = addPaths ps (addPath p k)"

text \<open>No batch holds more identifiers than the limit.\<close>

definition batches_within_limit :: "RemoteFSPathKeeper \<Rightarrow> bool" where
  "batches_within_limit k = list_all (\<lambda>c. length c \<le> chunk_limit k) (chunks k)"


section \<open>Reservations\<close>

text \<open>
  A \<open>DiskRemoteReservation\<close> holds its disk and its \<open>size\<close>, a \<open>UInt64\<close> (called
  \<open>size_reserved\<close> here, \<open>size\<close> being a function of HOL). The metric increment is a
  side effect on the metrics and is left out.
\<close>

record DiskRemoteReservation =
  size_reserved :: "64 word"

definition getSize :: "DiskRemoteReservation \<Rightarrow> 64 word" where
  "getSize r = size_reserved r"

text \<open>
  Modelled from the spec: the body of \<open>IDiskRemote::tryReserve\<close>, which the header only
  declares. It adds the bytes to \<open>reserved_bytes\<close> and always succeeds, there being no
  capacity ceiling on a remote disk (section 4.2). The destructor decrements the counter of
  live reservations (section 4.4), so a reservation that is made increments it. The
  arithmetic is that of \<open>UInt64\<close>.
\<close>

definition tryReserve :: "64 word \<Rightarrow> IDiskRemote \<Rightarrow> bool \<times> IDiskRemote" where
  "tryReserve bytes d =
     (True, d\<lparr>reserved_bytes := reserved_bytes d + bytes,
              reservation_count := reservation_count d + 1\<rparr>)"

text \<open>
  Modelled from the spec: the body of \<open>IDiskRemote::reserve\<close>, which the header only
  declares. It returns a reservation of the bytes when \<open>tryReserve\<close> succeeds, and no
  reservation otherwise.
\<close>

definition reserve :: "64 word \<Rightarrow> IDiskRemote \<Rightarrow> DiskRemoteReservation option \<times> IDiskRemote" where
  "reserve bytes d =
     (case tryReserve bytes d of
        (True, d') \<Rightarrow> (Some \<lparr>size_reserved = bytes\<rparr>, d')
      | (False, d') \<Rightarrow> (None, d'))"

text \<open>
  Modelled from the spec: the body of \<open>DiskRemoteReservation::update\<close>, which the header
  only declares. It subtracts the current size from \<open>reserved_bytes\<close>, sets the size to the
  new size, and adds it back (section 4.4).
\<close>

definition update ::
    "64 word \<Rightarrow> DiskRemoteReservation \<Rightarrow> IDiskRemote \<Rightarrow> DiskRemoteReservation \<times> IDiskRemote" where
  "update new_size r d =
     (let d1 = d\<lparr>reserved_bytes := reserved_bytes d - size_reserved r\<rparr>;
          r' = r\<lparr>size_reserved := new_size\<rparr>
      in (r', d1\<lparr>reserved_bytes := reserved_bytes d1 + size_reserved r'\<rparr>))"

text \<open>
  Modelled from the spec: the body of the destructor \<open>~DiskRemoteReservation\<close>, which the
  header only declares. It subtracts the full current size from \<open>reserved_bytes\<close> and
  decrements the disk's counter of live reservations (section 4.4).
\<close>

definition destroy :: "DiskRemoteReservation \<Rightarrow> IDiskRemote \<Rightarrow> IDiskRemote" where
  "destroy r d =
     d\<lparr>reserved_bytes := reserved_bytes d - size_reserved r,
       reservation_count := reservation_count d - 1\<rparr>"

text \<open>
  One disk and the reservations made on it. Every reservation ever made has a slot, in the
  order of creation; the slot of a destroyed reservation is \<open>None\<close>. An operation names the
  reservation it acts on by its slot.
\<close>

record reservation_world =
  disk :: IDiskRemote
  reservations :: "DiskRemoteReservation option list"

datatype reservation_op = Reserve "64 word" | Update nat "64 word" | Drop nat

definition live :: "reservation_world \<Rightarrow> DiskRemoteReservation list" where
  "live w = concat (map (\<lambda>slot. case slot of None \<Rightarrow> [] | Some r \<Rightarrow> [r]) (reservations w))"

definition slot_at :: "reservation_world \<Rightarrow> nat \<Rightarrow> DiskRemoteReservation option" where
  "slot_at w i = (if i < length (reservations w) then reservations w ! i else None)"

text \<open>
  One operation. \<open>update\<close> and the destructor run on a live reservation only (the program
  cannot call them on an object that is gone); on another slot the state is left as it is.
\<close>

definition step :: "reservation_op \<Rightarrow> reservation_world \<Rightarrow> reservation_world" where
  "step op w =
     (case op of
        Reserve bytes \<Rightarrow>
          (case reserve bytes (disk w) of
             (r, d') \<Rightarrow> w\<lparr>disk := d', reservations := reservations w @ [r]\<rparr>)
      | Update i new_size \<Rightarrow>
          (case slot_at w i of
             None \<Rightarrow> w
           | Some r \<Rightarrow>
               (case update new_size r (disk w) of
                  (r', d') \<Rightarrow> w\<lparr>disk := d', reservations := (reservations w)[i := Some r']\<rparr>))
      | Drop i \<Rightarrow>
          (case slot_at w i of
             None \<Rightarrow> w
           | Some r \<Rightarrow> w\<lparr>disk := destroy r (disk w), reservations := (reservations w)[i := None]\<rparr>))"

fun run :: "reservation_op list \<Rightarrow> reservation_world \<Rightarrow> reservation_world" where
  "run [] w = w"
| "run (op # ops) w = run ops (step op w)"

text \<open>A new disk: both counters are 0, as the member initialisers say, and no reservation.\<close>

definition new_disk :: "string \<Rightarrow> string \<Rightarrow> string \<Rightarrow> reservation_world" where
  "new_disk nm root meta =
     \<lparr>disk = \<lparr>disk_name = nm, disk_remote_fs_root_path = root, metadata_path = meta,
              reserved_bytes = 0, reservation_count = 0\<rparr>,
      reservations = []\<rparr>"

text \<open>The sum of the sizes of the live reservations: in \<open>UInt64\<close> arithmetic, and exact.\<close>

definition live_sum_u64 :: "reservation_world \<Rightarrow> 64 word" where
  "live_sum_u64 w = sum_list (map size_reserved (live w))"

definition live_sum :: "reservation_world \<Rightarrow> nat" where
  "live_sum w = sum_list (map (\<lambda>r. unat (size_reserved r)) (live w))"


text \<open>The size a slot contributes to the sum: nothing when its reservation is gone.\<close>

definition slot_size :: "DiskRemoteReservation option \<Rightarrow> 64 word" where
  "slot_size slot = (case slot of None \<Rightarrow> 0 | Some r \<Rightarrow> size_reserved r)"


section \<open>Metadata and the local metadata tree\<close>

text \<open>
  \<open>IDiskRemote::Metadata\<close>, field by field as the header declares it. \<open>size_t\<close> is 64 bits
  wide and \<open>ref_count\<close> is a \<open>UInt32\<close>. The two root paths are references to the disk's
  strings; the record holds their values.
\<close>

type_synonym PathAndSize = "string \<times> 64 word"

record Metadata =
  remote_fs_root_path :: string
  disk_path :: string
  metadata_file_path :: string
  total_size :: "64 word"
  remote_fs_objects :: "PathAndSize list"
  ref_count :: "32 word"
  read_only :: bool







section \<open>The metadata file format\<close>

text \<open>The three format versions, as the header declares them.\<close>

definition VERSION_ABSOLUTE_PATHS :: "32 word" where
  "VERSION_ABSOLUTE_PATHS = 1"

definition VERSION_RELATIVE_PATHS :: "32 word" where
  "VERSION_RELATIVE_PATHS = 2"

definition VERSION_READ_ONLY_FLAG :: "32 word" where
  "VERSION_READ_ONLY_FLAG = 3"

text \<open>
  Modelled from the spec: the layout of a metadata file, which the header does not give. A
  metadata file is the sequence of its fields (section 6): the version and the object
  count as \<open>uint32\<close>, for each object its path and its \<open>uint64\<close> size, the reference count
  as \<open>uint32\<close>, and for version 3 and above the read-only flag. The local storage maps the
  path of a metadata file to its content.
\<close>

datatype field = UInt32 "32 word" | UInt64 "64 word" | String string | Bool bool

type_synonym storage = "string \<rightharpoonup> field list"

text \<open>
  Modelled from the spec: how an object path is stored (section 4.1), absolute in version
  1, relative to the remote root in versions 2 and 3. The record keeps paths relative to
  the root (section 3).
\<close>

definition stored_path :: "32 word \<Rightarrow> string \<Rightarrow> string \<Rightarrow> string" where
  "stored_path version root path =
     (if version = VERSION_ABSOLUTE_PATHS then root @ path else path)"

text \<open>
  Modelled from the spec: the file of a record in a given version, field by field in the
  order of section 6. The count field is a \<open>uint32\<close>: it holds the number of objects
  modulo \<open>2^32\<close>.
\<close>

definition write_version :: "32 word \<Rightarrow> Metadata \<Rightarrow> field list" where
  "write_version version m =
     [UInt32 version, UInt32 (of_nat (length (remote_fs_objects m)))]
     @ concat (map (\<lambda>(path, sz). [String (stored_path version (remote_fs_root_path m) path), UInt64 sz])
                (remote_fs_objects m))
     @ [UInt32 (ref_count m)]
     @ (if VERSION_READ_ONLY_FLAG \<le> version then [Bool (read_only m)] else [])"

text \<open>
  Modelled from the spec: the body of \<open>save\<close>, which the header only declares. It writes
  the newest version and replaces the file (section 4.1). \<open>sync\<close> asks for the flush to
  stable storage, which does not change the content.
\<close>

definition save :: "bool \<Rightarrow> Metadata \<Rightarrow> storage \<Rightarrow> storage" where
  "save sync m st = st(disk_path m @ metadata_file_path m \<mapsto> write_version VERSION_READ_ONLY_FLAG m)"

text \<open>
  Modelled from the spec: the body of \<open>addObject\<close>, which the header only declares. It
  appends the pair and increments \<open>total_size\<close>; nothing is persisted (section 4.1). The
  size is a \<open>size_t\<close>, so it is not negative.
\<close>

definition addObject :: "string \<Rightarrow> 64 word \<Rightarrow> Metadata \<Rightarrow> Metadata" where
  "addObject path sz m =
     m\<lparr>total_size := total_size m + sz,
       remote_fs_objects := remote_fs_objects m @ [(path, sz)]\<rparr>"

text \<open>A sequence of \<open>addObject\<close> calls, in order.\<close>

fun addObjects :: "PathAndSize list \<Rightarrow> Metadata \<Rightarrow> Metadata" where
  "addObjects [] m = m"
| "addObjects ((path, sz) # objs) m = addObjects objs (addObject path sz m)"

text \<open>
  Modelled from the spec: the path reconstruction of the reader (section 4.1). The result
  is the path relative to the root, which is what the record holds (section 3) and what a
  parsed file yields whether the path was stored absolute or relative (section 8): a
  version 1 path is absolute and loses the root in front (a path that does not start with
  the root is inconsistent with its version); a path of version 2 or 3 is relative already
  and is kept as it is stored.
\<close>

definition reconstruct_path :: "32 word \<Rightarrow> string \<Rightarrow> string \<Rightarrow> string option" where
  "reconstruct_path version root stored =
     (if version = VERSION_ABSOLUTE_PATHS
      then (if take (length root) stored = root then Some (drop (length root) stored) else None)
      else Some stored)"

text \<open>
  Modelled from the spec: the reader's loop over the objects (section 6). Reading \<open>n\<close>
  objects gives the objects, in order, and the fields that follow them, or nothing when a
  field is missing or of the wrong kind.
\<close>

fun read_objects ::
    "32 word \<Rightarrow> string \<Rightarrow> nat \<Rightarrow> field list \<Rightarrow> (PathAndSize list \<times> field list) option" where
  "read_objects version root 0 fs = Some ([], fs)"
| "read_objects version root (Suc n) (String stored # UInt64 sz # fs) =
     (case reconstruct_path version root stored of
        None \<Rightarrow> None
      | Some path \<Rightarrow>
          (case read_objects version root n fs of
             None \<Rightarrow> None
           | Some (objs, rest) \<Rightarrow> Some ((path, sz) # objs, rest)))"
| "read_objects version root (Suc n) fs = None"

text \<open>
  Modelled from the spec: the record the constructor makes when \<open>create\<close> is set (section
  4.1): no objects, \<open>ref_count = 1\<close>, not read-only.
\<close>

definition empty_metadata :: "string \<Rightarrow> string \<Rightarrow> string \<Rightarrow> Metadata" where
  "empty_metadata root dpath file =
     \<lparr>remote_fs_root_path = root, disk_path = dpath, metadata_file_path = file,
      total_size = 0, remote_fs_objects = [], ref_count = 1, read_only = False\<rparr>"

text \<open>
  Modelled from the spec: the parsing part of the constructor of \<open>Metadata\<close>, which the
  header only declares. The reader branches on the version tag: it accepts the three
  versions, reconstructs the paths by the rule of the version, and reads the read-only flag
  only from version 3 on; before that the flag keeps its default and the reader does not
  look beyond the reference count. A file that does not have the fields of its version, in
  order, is corrupt (sections 4.1, 6 and 7). The objects are added to the record one by
  one, which keeps \<open>total_size\<close> their sum (section 3).
\<close>

definition parse_metadata :: "string \<Rightarrow> string \<Rightarrow> string \<Rightarrow> field list \<Rightarrow> ErrorCodes + Metadata" where
  "parse_metadata root dpath file content =
     (case content of
        UInt32 version # UInt32 count # fs \<Rightarrow>
          if version \<noteq> VERSION_ABSOLUTE_PATHS \<and> version \<noteq> VERSION_RELATIVE_PATHS
             \<and> version \<noteq> VERSION_READ_ONLY_FLAG
          then Inl CorruptMetadata
          else
            (case read_objects version root (unat count) fs of
               None \<Rightarrow> Inl CorruptMetadata
             | Some (objs, rest) \<Rightarrow>
                 (case rest of
                    UInt32 refs # rest' \<Rightarrow>
                      (let m = (addObjects objs (empty_metadata root dpath file))\<lparr>ref_count := refs\<rparr>
                       in if VERSION_READ_ONLY_FLAG \<le> version
                          then (case rest' of
                                  Bool flag # rest'' \<Rightarrow> Inr (m\<lparr>read_only := flag\<rparr>)
                                | _ \<Rightarrow> Inl CorruptMetadata)
                          else Inr m)
                  | _ \<Rightarrow> Inl CorruptMetadata))
      | _ \<Rightarrow> Inl CorruptMetadata)"

text \<open>
  Modelled from the spec: the body of the constructor
  \<open>Metadata(remote_fs_root_path, disk_path, metadata_file_path, create)\<close>, which the header
  only declares. It gives an empty record when \<open>create\<close> is set; otherwise the record parsed
  from the file, and \<open>NotFound\<close> when there is no file (section 4.1).
\<close>

definition Metadata_init ::
    "string \<Rightarrow> string \<Rightarrow> string \<Rightarrow> bool \<Rightarrow> storage \<Rightarrow> ErrorCodes + Metadata" where
  "Metadata_init root dpath file create st =
     (if create then Inr (empty_metadata root dpath file)
      else (case st (dpath @ file) of
              None \<Rightarrow> Inl NotFound
            | Some content \<Rightarrow> parse_metadata root dpath file content))"

section \<open>Properties of the inline facade methods\<close>

text \<open>
  Claim C6. On the base facade, \<open>removeFromRemoteFS\<close> and \<open>createFSPathKeeper\<close> fail for
  every disk and every argument: the result is always an exception, never a value, and the
  exception carries the code \<open>NOT_IMPLEMENTED\<close> (the specification's NotSupported) with the
  message naming the disk.
\<close>

theorem base_facade_not_supported:
  "removeFromRemoteFS d keeper =
     Inl (Exception NOT_IMPLEMENTED
            (''Disk '' @ disk_name d @ '' does not support removing remote files''))
   \<and> code (projl (removeFromRemoteFS d keeper)) = NOT_IMPLEMENTED
   \<and> isl (removeFromRemoteFS d keeper)
   \<and> (createFSPathKeeper d :: exception + 'k) =
     Inl (Exception NOT_IMPLEMENTED
            (''Disk '' @ disk_name d @ '' does not support FS paths keeper''))
   \<and> code (projl (createFSPathKeeper d :: exception + 'k)) = NOT_IMPLEMENTED
   \<and> isl (createFSPathKeeper d :: exception + 'k)"
  by (simp add: removeFromRemoteFS_def createFSPathKeeper_def getName_def)

text \<open>
  Claim C8. For every path, every state and every implementation of the virtual methods,
  \<open>removeFile\<close> is \<open>removeSharedFile\<close> with \<open>keep_in_remote_fs = false\<close> and
  \<open>removeRecursive\<close> is \<open>removeSharedRecursive\<close> with \<open>keep_in_remote_fs = false\<close>: same
  result, same final state.
\<close>

theorem remove_entry_points_specialise:
  "removeFile removeSharedFile_impl path s = removeSharedFile_impl path False s
   \<and> removeRecursive removeSharedRecursive_impl path s = removeSharedRecursive_impl path False s"
  by (simp add: removeFile_def removeRecursive_def)

text \<open>
  Claim C10. For every pair of paths, every state and every implementation of \<open>moveFile\<close>,
  \<open>moveDirectory\<close> produces what \<open>moveFile\<close> produces on the same arguments; nothing
  is done before or after the call.
\<close>

theorem moveDirectory_is_moveFile:
  "moveDirectory moveFile_impl from_path to_path s = moveFile_impl from_path to_path s"
  by (simp add: moveDirectory_def)

section \<open>Properties of the directory iterator\<close>

text \<open>
  When the appended part holds no separator, the filename of the result is the filename of
  the front followed by that part.
\<close>

lemma filename_append:
  "separator \<notin> set n \<Longrightarrow> filename (p @ n) = filename p @ n"
proof -
  assume "separator \<notin> set n"
  then have "\<And>x. x \<in> set (rev n) \<Longrightarrow> x \<noteq> separator"
    by auto
  then have "takeWhile (\<lambda>c. c \<noteq> separator) (rev n @ rev p) =
             rev n @ takeWhile (\<lambda>c. c \<noteq> separator) (rev p)"
    by (rule takeWhile_append2)
  then show ?thesis
    by (simp add: filename_def)
qed

lemma filename_separator [simp]: "filename (p @ [separator]) = []"
  by (simp add: filename_def)

lemma filename_append_name:
  assumes "entry_name_ok n"
  shows "filename (path_append p n) = n"
proof -
  from assms have n: "n \<noteq> []" "separator \<notin> set n"
    by (simp_all add: entry_name_ok_def)
  then have "\<not> is_absolute n"
    by (cases n) (auto simp: is_absolute_def)
  moreover have "filename ((p @ [separator]) @ n) = n"
    using filename_append [OF n(2), of "p @ [separator]"] by simp
  moreover have "\<not> has_filename p \<Longrightarrow> filename (p @ n) = n"
    using n(2) by (simp add: filename_append has_filename_def)
  ultimately show ?thesis
    by (simp add: path_append_def)
qed

lemma trailing1: "entry_name_ok n \<Longrightarrow> \<not> has_trailing_separator (path_append p n)"
  unfolding entry_name_ok_def path_append_def has_trailing_separator_def is_absolute_def
  by (cases n rule: rev_cases) (auto split: list.splits)

lemma trailing2: "entry_name_ok n \<Longrightarrow> path_append (path_append p n) [] = path_append p n @ [separator]"
  using filename_append_name[of n p]
  by (simp add: path_append_def[of "path_append p n"] is_absolute_def has_filename_def entry_name_ok_def)

lemma advance_drop:
  "i \<le> length es \<Longrightarrow>
   advance i \<lparr>iter = es, folder_path = f\<rparr> = Some \<lparr>iter = drop i es, folder_path = f\<rparr>"
proof (induction i arbitrary: es)
  case 0
  then show ?case by simp
next
  case (Suc i)
  then obtain e es' where es: "es = e # es'"
    by (cases es) auto
  with Suc show ?case
    by (simp add: RemoteDiskDirectoryIterator_next_def)
qed

text \<open>
  Claim C9. Take a directory whose entries have the names the system gives them (not empty,
  no separator). For the entry at any position \<open>i\<close> of the listing, the iterator reaches it
  after \<open>i\<close> calls of \<open>next\<close>, is valid there, and
  \<^item> \<open>name\<close> is the entry's bare name, which holds no separator;
  \<^item> \<open>path\<close> is \<open>folder_path / name\<close>, followed by one separator when the entry is a
    directory, and this is the final component of the path;
  \<^item> the path ends with a separator exactly when the entry is a directory.
\<close>

theorem iterator_entry_path_and_name:
  assumes names: "\<forall>(n, d) \<in> set ls. entry_name_ok n"
    and i: "i < length ls"
    and entry: "ls ! i = (n, d)"
  shows "\<exists>it p. advance i (RemoteDiskDirectoryIterator_init ls full_path folder) = Some it
           \<and> isValid it
           \<and> RemoteDiskDirectoryIterator_name it = Some n
           \<and> RemoteDiskDirectoryIterator_path it = Some p
           \<and> p = (if d then path_append folder n @ [separator] else path_append folder n)
           \<and> (has_trailing_separator p \<longleftrightarrow> d)
           \<and> filename (path_append folder n) = n
           \<and> separator \<notin> set n"
proof -
  let ?es = "directory_iterator ls full_path"
  let ?it = "\<lparr>iter = drop i ?es, folder_path = folder\<rparr>"
  have ok: "entry_name_ok n"
    using names i entry nth_mem [of i ls] by fastforce
  have len: "length ?es = length ls"
    by (simp add: directory_iterator_def)
  have adv: "advance i (RemoteDiskDirectoryIterator_init ls full_path folder) = Some ?it"
    using i len by (simp add: RemoteDiskDirectoryIterator_init_def advance_drop)
  have cur: "drop i ?es =
      \<lparr>entry_path = path_append full_path n, entry_is_directory = d\<rparr> # drop (Suc i) ?es"
    using i entry len by (simp add: Cons_nth_drop_Suc [symmetric] directory_iterator_def)
  have nm: "RemoteDiskDirectoryIterator_name ?it = Some n"
    using ok by (simp add: RemoteDiskDirectoryIterator_name_def cur filename_append_name)
  have pth: "RemoteDiskDirectoryIterator_path ?it =
      Some (if d then path_append folder n @ [separator] else path_append folder n)"
    using ok by (simp add: RemoteDiskDirectoryIterator_path_def cur filename_append_name trailing2)
  have tr: "has_trailing_separator
      (if d then path_append folder n @ [separator] else path_append folder n) \<longleftrightarrow> d"
    using trailing1 [OF ok, of folder] by (simp add: has_trailing_separator_def)
  have "isValid ?it"
    by (simp add: isValid_def cur)
  with adv nm pth tr ok show ?thesis
    by (simp add: filename_append_name entry_name_ok_def)
qed

theorem iterator_entry_path_and_name_witness:
  "\<exists>it. advance 1 (RemoteDiskDirectoryIterator_init
                      [(''a.bin'', False), (''sub'', True)] ''/var/meta/d/'' ''d'') = Some it
         \<and> RemoteDiskDirectoryIterator_name it = Some ''sub''
         \<and> RemoteDiskDirectoryIterator_path it = Some ''d/sub/''"
  using iterator_entry_path_and_name
    [of "[(''a.bin'', False), (''sub'', True)]" 1 "''sub''" True "''/var/meta/d/''" "''d''"]
  by (auto simp add: entry_name_ok_def separator_def path_append_def is_absolute_def
      has_filename_def filename_def)

section \<open>Properties of the asynchronous executor\<close>

text \<open>What the scheduled lambda does, for every task, world, promise state and log.\<close>

lemma worker_run:
  "worker task \<lparr>world = w, promise = p, log = lg\<rparr> =
     (case task w of
        (w', None) \<Rightarrow>
          (if p = NotReady then (\<lparr>world = w', promise = Ready, log = lg\<rparr>, None)
           else (\<lparr>world = w', promise = p,
                   log = lg @ [(''Failed to run async task'', future_error)]\<rparr>, None))
      | (w', Some e) \<Rightarrow>
          (\<lparr>world = w', promise = (if p = NotReady then Failed e else p),
             log = lg @ [(''Failed to run async task'', e)]\<rparr>, None))"
  by (cases p)
     (auto simp: worker_def try_catch_all_def seq_def call_task_def promise_set_value_def
        promise_set_exception_def tryLogCurrentException_def skip_def set_value_def
        set_exception_def split: prod.splits option.splits)


text \<open>
  Claim C5. For every task handed to \<open>execute\<close>:
  \<^item> the handle starts without a result;
  \<^item> no exception leaves the scheduled job, in any state, so none reaches the pool;
  \<^item> a task that returns normally makes the handle ready with a value and logs nothing;
  \<^item> a task that throws \<open>e\<close> has \<open>e\<close> logged and stored in the handle; when the promise
    cannot take the exception (it already holds a value or an exception), the failure of
    \<open>set_exception\<close> is dropped: the exception is logged, the promise is left as it was
    and nothing is thrown;
  \<^item> after the job the handle holds a result: a value or the task's exception, never both
    (they are different states of the one promise) and never neither.
\<close>

theorem async_task_outcome:
  "fst (execute task) = NotReady
   \<and> snd (snd (execute task) s) = None
   \<and> (case task w of
        (w', None) \<Rightarrow>
          snd (execute task) \<lparr>world = w, promise = fst (execute task), log = lg\<rparr> =
            (\<lparr>world = w', promise = Ready, log = lg\<rparr>, None)
      | (w', Some e) \<Rightarrow>
          snd (execute task) \<lparr>world = w, promise = fst (execute task), log = lg\<rparr> =
            (\<lparr>world = w', promise = Failed e,
               log = lg @ [(''Failed to run async task'', e)]\<rparr>, None)
          \<and> snd (execute task) \<lparr>world = w, promise = Ready, log = lg\<rparr> =
            (\<lparr>world = w', promise = Ready,
               log = lg @ [(''Failed to run async task'', e)]\<rparr>, None)
          \<and> snd (execute task) \<lparr>world = w, promise = Failed e0, log = lg\<rparr> =
            (\<lparr>world = w', promise = Failed e0,
               log = lg @ [(''Failed to run async task'', e)]\<rparr>, None))
   \<and> promise (fst (snd (execute task)
                      \<lparr>world = w, promise = fst (execute task), log = lg\<rparr>)) \<noteq> NotReady"
proof -
  obtain w0 p0 lg0 where s: "s = \<lparr>world = w0, promise = p0, log = lg0\<rparr>"
    by (cases s) auto
  have "snd (worker task s) = None"
    unfolding s worker_run by (simp split: prod.splits option.splits)
  then show ?thesis
    by (simp add: execute_def worker_run split: prod.splits option.splits)
qed

section \<open>Properties of the path batcher\<close>

lemma chunk_limit_addPath [simp]: "chunk_limit (addPath p k) = chunk_limit k"
  by (simp add: addPath_def)

lemma chunk_limit_addPaths [simp]: "chunk_limit (addPaths ps k) = chunk_limit k"
  by (induction ps arbitrary: k) simp_all

lemma concat_chunks_addPath: "concat (chunks (addPath p k)) = concat (chunks k) @ [p]"
proof (cases "chunks k = []")
  case True
  then show ?thesis by (simp add: addPath_def)
next
  case False
  then have "concat (chunks k) = concat (butlast (chunks k) @ [last (chunks k)])"
    by simp
  then have "concat (butlast (chunks k) @ [last (chunks k) @ [p]]) = concat (chunks k) @ [p]"
    by simp
  with False show ?thesis
    by (simp add: addPath_def)
qed

lemma concat_chunks_addPaths: "concat (chunks (addPaths ps k)) = concat (chunks k) @ ps"
  by (induction ps arbitrary: k) (simp_all add: concat_chunks_addPath)

lemma within_limit_addPath:
  assumes "0 < chunk_limit k" and "batches_within_limit k"
  shows "batches_within_limit (addPath p k)"
proof (cases "chunks k = [] \<or> chunk_limit k \<le> length (last (chunks k))")
  case True
  with assms show ?thesis
    by (auto simp: addPath_def batches_within_limit_def)
next
  case False
  then have ne: "chunks k \<noteq> []" and lt: "length (last (chunks k)) < chunk_limit k"
    by auto
  from assms(2) have "list_all (\<lambda>c. length c \<le> chunk_limit k) (butlast (chunks k))"
    by (auto simp: batches_within_limit_def list_all_iff dest: in_set_butlastD)
  with False lt show ?thesis
    by (simp add: addPath_def batches_within_limit_def)
qed

lemma within_limit_addPaths:
  "0 < chunk_limit k \<Longrightarrow> batches_within_limit k \<Longrightarrow> batches_within_limit (addPaths ps k)"
  by (induction ps arbitrary: k) (simp_all add: within_limit_addPath)

text \<open>
  Claim C7, as amended. For every chunk limit \<open>k \<ge> 1\<close> and every sequence of paths added
  to a new batcher, no batch holds more than \<open>k\<close> identifiers, and the batches, one after
  the other, are exactly the sequence of added paths: nothing is left out, nothing is
  added and nothing is repeated. In any batcher, when the current batch has reached the
  limit, \<open>addPath\<close> starts a new batch holding the new path; when it has not, the path
  goes to the current batch.
\<close>

theorem path_batcher_batches:
  assumes "0 < limit"
  shows "batches_within_limit (addPaths paths (RemoteFSPathKeeper_init limit))
         \<and> concat (chunks (addPaths paths (RemoteFSPathKeeper_init limit))) = paths
         \<and> (chunks k \<noteq> [] \<and> chunk_limit k \<le> length (last (chunks k)) \<longrightarrow>
              chunks (addPath p k) = chunks k @ [[p]])
         \<and> (chunks k' \<noteq> [] \<and> length (last (chunks k')) < chunk_limit k' \<longrightarrow>
              chunks (addPath p' k') = butlast (chunks k') @ [last (chunks k') @ [p']])"
proof -
  have "batches_within_limit (RemoteFSPathKeeper_init limit)"
    by (simp add: batches_within_limit_def RemoteFSPathKeeper_init_def)
  with assms have "batches_within_limit (addPaths paths (RemoteFSPathKeeper_init limit))"
    by (simp add: within_limit_addPaths RemoteFSPathKeeper_init_def)
  moreover have "concat (chunks (addPaths paths (RemoteFSPathKeeper_init limit))) = paths"
    by (simp add: concat_chunks_addPaths RemoteFSPathKeeper_init_def)
  ultimately show ?thesis
    by (simp add: addPath_def)
qed


theorem path_batcher_batches_witness:
  "chunks (addPaths [''a'', ''b'', ''c'', ''d'', ''e''] (RemoteFSPathKeeper_init 2)) =
     [[''a'', ''b''], [''c'', ''d''], [''e'']]
   \<and> batches_within_limit (addPaths [''a'', ''b'', ''c'', ''d'', ''e''] (RemoteFSPathKeeper_init 2))
   \<and> chunks (addPath ''f'' \<lparr>chunk_limit = 2, chunks = [[''a'', ''b'']]\<rparr>) = [[''a'', ''b''], [''f'']]
   \<and> chunks (addPath ''g'' \<lparr>chunk_limit = 2, chunks = [[''a'']]\<rparr>) = [[''a'', ''g'']]"
  using path_batcher_batches [of 2 "[''a'', ''b'', ''c'', ''d'', ''e'']"
      "\<lparr>chunk_limit = 2, chunks = [[''a'', ''b'']]\<rparr>" "''f''"
      "\<lparr>chunk_limit = 2, chunks = [[''a'']]\<rparr>" "''g''"]
  by (simp add: addPath_def RemoteFSPathKeeper_init_def)

text \<open>
  Claim C7 as stated, for every chunk limit, fails at the limit 0: the one added path has
  to be in some batch, and that batch holds more than 0 identifiers.
\<close>

theorem path_batcher_zero_limit_counterexample:
  "chunks (addPaths [''a''] (RemoteFSPathKeeper_init 0)) = [[''a'']]
   \<and> \<not> batches_within_limit (addPaths [''a''] (RemoteFSPathKeeper_init 0))"
  by (simp add: addPath_def RemoteFSPathKeeper_init_def batches_within_limit_def)

section \<open>Properties of the reservations\<close>

lemma sum_list_map_update:
  fixes f :: "'a \<Rightarrow> 'b::ab_group_add"
  shows "i < length xs \<Longrightarrow>
    sum_list (map f (xs[i := y])) = sum_list (map f xs) - f (xs ! i) + f y"
  by (induction xs arbitrary: i) (auto split: nat.splits)

lemma sum_live_slots:
  "sum_list (map size_reserved (concat (map (\<lambda>slot. case slot of None \<Rightarrow> [] | Some r \<Rightarrow> [r]) rs)))
   = sum_list (map slot_size rs)"
  by (induction rs) (auto simp: slot_size_def split: option.splits)

lemma live_sum_u64_slots: "live_sum_u64 w = sum_list (map slot_size (reservations w))"
  by (simp add: live_sum_u64_def live_def sum_live_slots)

lemma step_keeps_balance:
  assumes "reserved_bytes (disk w) = live_sum_u64 w"
  shows "reserved_bytes (disk (step op w)) = live_sum_u64 (step op w)"
proof (cases op)
  case (Reserve bytes)
  with assms show ?thesis
    by (simp add: step_def reserve_def tryReserve_def live_sum_u64_slots slot_size_def)
next
  case (Update i new_size)
  show ?thesis
  proof (cases "slot_at w i")
    case None
    with Update assms show ?thesis by (simp add: step_def)
  next
    case (Some r)
    then have i: "i < length (reservations w)" and r: "reservations w ! i = Some r"
      by (auto simp: slot_at_def split: if_splits)
    with Update Some assms show ?thesis
      by (simp add: step_def update_def Let_def live_sum_u64_slots sum_list_map_update slot_size_def)
  qed
next
  case (Drop i)
  show ?thesis
  proof (cases "slot_at w i")
    case None
    with Drop assms show ?thesis by (simp add: step_def)
  next
    case (Some r)
    then have i: "i < length (reservations w)" and r: "reservations w ! i = Some r"
      by (auto simp: slot_at_def split: if_splits)
    with Drop Some assms show ?thesis
      by (simp add: step_def destroy_def live_sum_u64_slots sum_list_map_update slot_size_def)
  qed
qed

lemma run_keeps_balance:
  "reserved_bytes (disk w) = live_sum_u64 w \<Longrightarrow>
   reserved_bytes (disk (run ops w)) = live_sum_u64 (run ops w)"
  by (induction ops arbitrary: w) (simp_all add: step_keeps_balance)

lemma unat_sum_list_u64:
  "unat (sum_list (ws :: 64 word list)) = sum_list (map unat ws) mod 2 ^ 64"
proof (induction ws)
  case Nil
  then show ?case by simp
next
  case (Cons a ws)
  have "unat (a + sum_list ws) = (unat a + unat (sum_list ws)) mod 2 ^ 64"
    by (simp add: unat_word_ariths)
  also have "\<dots> = (unat a + sum_list (map unat ws)) mod 2 ^ 64"
    by (simp add: Cons.IH mod_add_right_eq)
  finally show ?case by simp
qed

lemma unat_live_sum: "unat (live_sum_u64 w) = live_sum w mod 2 ^ 64"
  by (simp add: live_sum_u64_def live_sum_def unat_sum_list_u64 comp_def)

text \<open>
  Claim C2, as amended. After every finite sequence of reserve, update and destruction
  operations on a new disk (hence at every point of such a sequence), \<open>reserved_bytes\<close>
  equals the sum of the current sizes of the live reservations taken in \<open>UInt64\<close>
  arithmetic, that is modulo \<open>2^64\<close>; it equals the exact sum whenever that sum is below
  \<open>2^64\<close>, and as an unsigned counter it is never negative. \<open>update\<close> changes
  \<open>reserved_bytes\<close> by the new size minus the previous size and sets the size, and the
  destructor subtracts the full current size, both modulo \<open>2^64\<close>.
\<close>

theorem reserved_bytes_is_live_sum:
  "reserved_bytes (disk (run ops (new_disk nm root meta))) =
     live_sum_u64 (run ops (new_disk nm root meta))
   \<and> unat (reserved_bytes (disk (run ops (new_disk nm root meta)))) =
     live_sum (run ops (new_disk nm root meta)) mod 2 ^ 64
   \<and> (live_sum (run ops (new_disk nm root meta)) < 2 ^ 64 \<longrightarrow>
        unat (reserved_bytes (disk (run ops (new_disk nm root meta)))) =
          live_sum (run ops (new_disk nm root meta)))
   \<and> 0 \<le> uint (reserved_bytes (disk (run ops (new_disk nm root meta))))
   \<and> reserved_bytes (snd (update new_size r d)) =
        reserved_bytes d + (new_size - size_reserved r)
   \<and> size_reserved (fst (update new_size r d)) = new_size
   \<and> reserved_bytes (destroy r d) = reserved_bytes d - size_reserved r"
proof -
  let ?w = "run ops (new_disk nm root meta)"
  have "reserved_bytes (disk (new_disk nm root meta)) = live_sum_u64 (new_disk nm root meta)"
    by (simp add: new_disk_def live_sum_u64_def live_def)
  then have bal: "reserved_bytes (disk ?w) = live_sum_u64 ?w"
    by (rule run_keeps_balance)
  then have m: "unat (reserved_bytes (disk ?w)) = live_sum ?w mod 2 ^ 64"
    by (simp add: unat_live_sum)
  from bal m show ?thesis
    by (simp add: update_def destroy_def Let_def)
qed

theorem reserved_bytes_is_live_sum_witness:
  "live_sum (run [Reserve 5, Reserve 7, Update 0 3, Drop 1] (new_disk ''s3'' ''root/'' ''meta/'')) = 3
   \<and> unat (reserved_bytes
        (disk (run [Reserve 5, Reserve 7, Update 0 3, Drop 1] (new_disk ''s3'' ''root/'' ''meta/'')))) = 3"
  using reserved_bytes_is_live_sum
    [of "[Reserve 5, Reserve 7, Update 0 3, Drop 1]" "''s3''" "''root/''" "''meta/''"
        7 "\<lparr>size_reserved = 5\<rparr>" "disk (new_disk ''s3'' ''root/'' ''meta/'')"]
  by (simp add: step_def reserve_def tryReserve_def update_def destroy_def slot_at_def
      new_disk_def live_sum_def live_def)

text \<open>
  Claim C2 as stated fails when the sizes of the live reservations add up to \<open>2^64\<close> or
  more: two reservations of one byte, the first then updated to \<open>2^64 - 1\<close> bytes, leave
  live reservations of \<open>2^64\<close> bytes in all and a counter of 0.
\<close>

theorem reserved_bytes_overflow_counterexample:
  "reserved_bytes (disk (run [Reserve 1, Reserve 1, Update 0 18446744073709551615]
                           (new_disk ''s3'' ''root/'' ''meta/''))) = 0
   \<and> live_sum (run [Reserve 1, Reserve 1, Update 0 18446744073709551615]
                  (new_disk ''s3'' ''root/'' ''meta/'')) = 18446744073709551616
   \<and> unat (reserved_bytes (disk (run [Reserve 1, Reserve 1, Update 0 18446744073709551615]
                                 (new_disk ''s3'' ''root/'' ''meta/'')))) \<noteq>
       live_sum (run [Reserve 1, Reserve 1, Update 0 18446744073709551615]
                  (new_disk ''s3'' ''root/'' ''meta/''))"
  by (simp add: step_def reserve_def tryReserve_def update_def slot_at_def new_disk_def
      live_sum_def live_def)

section \<open>Properties of shared removal\<close>









section \<open>Properties of the metadata format\<close>

text \<open>A sequence of \<open>addObject\<close> calls appends the objects and adds up their sizes.\<close>

lemma addObjects_eq:
  "addObjects objs m =
     m\<lparr>total_size := total_size m + sum_list (map snd objs),
       remote_fs_objects := remote_fs_objects m @ objs\<rparr>"
  by (induction objs arbitrary: m) (auto simp: addObject_def add.assoc)

lemma reconstruct_stored_path:
  "reconstruct_path version root (stored_path version root path) = Some path"
  by (simp add: reconstruct_path_def stored_path_def)

text \<open>Reading back what was written, object by object.\<close>

lemma read_objects_written:
  "read_objects version root (length objs)
     (concat (map (\<lambda>(path, sz). [String (stored_path version root path), UInt64 sz]) objs) @ rest)
   = Some (objs, rest)"
  by (induction objs) (auto simp: reconstruct_stored_path)

lemma parse_write_version:
  assumes v: "version = VERSION_ABSOLUTE_PATHS \<or> version = VERSION_RELATIVE_PATHS
              \<or> version = VERSION_READ_ONLY_FLAG"
    and len: "length (remote_fs_objects m) < 2 ^ 32"
  shows "parse_metadata (remote_fs_root_path m) dpath file (write_version version m @ extra) =
     Inr ((addObjects (remote_fs_objects m) (empty_metadata (remote_fs_root_path m) dpath file))
            \<lparr>ref_count := ref_count m,
             read_only := (if VERSION_READ_ONLY_FLAG \<le> version then read_only m else False)\<rparr>)"
proof -
  have n: "unat (of_nat (length (remote_fs_objects m)) :: 32 word) = length (remote_fs_objects m)"
    using len by (simp add: unat_of_nat)
  show ?thesis
    using v
    by (auto simp: parse_metadata_def write_version_def n read_objects_written Let_def addObjects_eq
        empty_metadata_def VERSION_ABSOLUTE_PATHS_def VERSION_RELATIVE_PATHS_def
        VERSION_READ_ONLY_FLAG_def)
qed


lemma parse_saved:
  assumes len: "length (remote_fs_objects m) < 2 ^ 32"
    and total: "total_size m = sum_list (map snd (remote_fs_objects m))"
  shows "Metadata_init (remote_fs_root_path m) (disk_path m) (metadata_file_path m) False
           (save sync m st) = Inr m"
proof -
  have "parse_metadata (remote_fs_root_path m) (disk_path m) (metadata_file_path m)
          (write_version VERSION_READ_ONLY_FLAG m @ []) =
        Inr ((addObjects (remote_fs_objects m)
               (empty_metadata (remote_fs_root_path m) (disk_path m) (metadata_file_path m)))
              \<lparr>ref_count := ref_count m, read_only := read_only m\<rparr>)"
    using parse_write_version [OF _ len, of VERSION_READ_ONLY_FLAG "disk_path m"
        "metadata_file_path m" "[]"]
    by simp
  also have "(addObjects (remote_fs_objects m)
               (empty_metadata (remote_fs_root_path m) (disk_path m) (metadata_file_path m)))
              \<lparr>ref_count := ref_count m, read_only := read_only m\<rparr> = m"
    using total by (cases m) (simp add: addObjects_eq empty_metadata_def)
  finally show ?thesis
    by (simp add: Metadata_init_def save_def)
qed

text \<open>
  Claim C3, as amended. Take a freshly created record and any sequence of fewer than \<open>2^32\<close>
  \<open>addObject\<close> calls (every size is a \<open>size_t\<close>, so not negative). Saving the record,
  with or without \<open>sync\<close>, and loading the same file gives a record equal to the one in
  memory at the moment of the save: the same objects (paths, sizes and order, those added),
  the same \<open>total_size\<close> (the sum of the sizes), the same \<open>ref_count\<close> and the same
  \<open>read_only\<close> flag.
\<close>

theorem metadata_save_load_roundtrip:
  assumes fresh: "Metadata_init root dpath file True st0 = Inr m0"
    and len: "length objs < 2 ^ 32"
  shows "Metadata_init root dpath file False (save sync (addObjects objs m0) st) =
           Inr (addObjects objs m0)
         \<and> remote_fs_objects (addObjects objs m0) = objs
         \<and> total_size (addObjects objs m0) = sum_list (map snd objs)
         \<and> ref_count (addObjects objs m0) = 1
         \<and> read_only (addObjects objs m0) = False"
proof -
  from fresh have m0: "m0 = empty_metadata root dpath file"
    by (simp add: Metadata_init_def)
  let ?m = "addObjects objs m0"
  have f: "remote_fs_root_path ?m = root" "disk_path ?m = dpath" "metadata_file_path ?m = file"
    "remote_fs_objects ?m = objs" "total_size ?m = sum_list (map snd objs)"
    "ref_count ?m = 1" "read_only ?m = False"
    by (simp_all add: m0 addObjects_eq empty_metadata_def)
  have "Metadata_init (remote_fs_root_path ?m) (disk_path ?m) (metadata_file_path ?m) False
          (save sync ?m st) = Inr ?m"
    using len by (intro parse_saved) (simp_all add: f)
  with f show ?thesis by simp
qed


theorem metadata_save_load_roundtrip_witness:
  "Metadata_init ''s3://bucket/'' ''/var/meta/'' ''f'' False
     (save True (addObjects [(''obj1'', 100), (''obj2'', 50)]
                   (empty_metadata ''s3://bucket/'' ''/var/meta/'' ''f'')) Map.empty) =
   Inr \<lparr>remote_fs_root_path = ''s3://bucket/'', disk_path = ''/var/meta/'',
        metadata_file_path = ''f'', total_size = 150,
        remote_fs_objects = [(''obj1'', 100), (''obj2'', 50)], ref_count = 1,
        read_only = False\<rparr>"
  using metadata_save_load_roundtrip
    [of "''s3://bucket/''" "''/var/meta/''" "''f''" Map.empty
        "empty_metadata ''s3://bucket/'' ''/var/meta/'' ''f''"
        "[(''obj1'', 100), (''obj2'', 50)]" True Map.empty]
  by (simp add: Metadata_init_def empty_metadata_def addObject_def)


text \<open>
  When the number of objects is a multiple of \<open>2^32\<close> and not 0, the count field reads 0 and
  the reader finds an object where it expects the reference count.
\<close>

lemma parse_count_wrapped:
  assumes objs: "remote_fs_objects m = (path, sz) # objs"
    and wrap: "(of_nat (length (remote_fs_objects m)) :: 32 word) = 0"
  shows "parse_metadata root dpath file (write_version VERSION_READ_ONLY_FLAG m) =
           Inl CorruptMetadata"
proof -
  obtain rest where w: "write_version VERSION_READ_ONLY_FLAG m =
      UInt32 VERSION_READ_ONLY_FLAG # UInt32 0 # String path # UInt64 sz # rest"
    unfolding write_version_def wrap unfolding objs
    by (simp add: stored_path_def VERSION_READ_ONLY_FLAG_def VERSION_ABSOLUTE_PATHS_def)
  show ?thesis
    unfolding w by (simp add: parse_metadata_def VERSION_READ_ONLY_FLAG_def)
qed

lemma replicate_many: "replicate 4294967296 x = x # replicate 4294967295 x"
proof -
  have "(4294967296 :: nat) = Suc 4294967295"
    by simp
  then show ?thesis
    by (simp only: replicate_Suc)
qed

text \<open>
  Claim C3 as stated, for every finite sequence of \<open>addObject\<close> calls, fails at a sequence
  of \<open>2^32\<close> calls: the saved file does not load.
\<close>

theorem metadata_roundtrip_count_counterexample:
  "Metadata_init ''s3://bucket/'' ''/var/meta/'' ''f'' True Map.empty =
     Inr (empty_metadata ''s3://bucket/'' ''/var/meta/'' ''f'')
   \<and> Metadata_init ''s3://bucket/'' ''/var/meta/'' ''f'' False
       (save False
          (addObjects (replicate 4294967296 (''o'', 0))
             (empty_metadata ''s3://bucket/'' ''/var/meta/'' ''f''))
          Map.empty) = Inl CorruptMetadata"
proof -
  let ?m = "addObjects (replicate 4294967296 (''o'', 0))
              (empty_metadata ''s3://bucket/'' ''/var/meta/'' ''f'')"
  have o: "remote_fs_objects ?m = (''o'', 0) # replicate 4294967295 (''o'', 0)"
    by (simp only: addObjects_eq replicate_many) (simp add: empty_metadata_def)
  have "length (remote_fs_objects ?m) = 4294967296"
    by (simp only: addObjects_eq) (simp add: empty_metadata_def)
  then have c: "(of_nat (length (remote_fs_objects ?m)) :: 32 word) = 0"
    by simp
  have f: "disk_path ?m = ''/var/meta/''" "metadata_file_path ?m = ''f''"
    by (simp_all only: addObjects_eq) (simp_all add: empty_metadata_def)
  have "parse_metadata ''s3://bucket/'' ''/var/meta/'' ''f''
          (write_version VERSION_READ_ONLY_FLAG ?m) = Inl CorruptMetadata"
    using o c by (rule parse_count_wrapped)
  then show ?thesis
    by (simp add: Metadata_init_def save_def f)
qed





end
